theory Spec2Isabelle
  imports Complex_Main "HOL-Library.Char_ord" "HOL-Library.List_Lexorder"
begin

section \<open>Python values and errors\<close>

text \<open>
  The exceptions the modelled functions can raise. Python floats are idealised as
  exact reals; Python's unbounded integers are \<open>int\<close>, and a Spark row count is a \<open>nat\<close>.
\<close>

datatype py_error = NameError | ZeroDivisionError | KeyError | TypeError | SparkError

text \<open>Python's true division \<open>a / b\<close>: raises on a zero divisor.\<close>

definition py_truediv :: "real \<Rightarrow> real \<Rightarrow> py_error + real" where
  "py_truediv a b = (if b = 0 then Inl ZeroDivisionError else Inr (a / b))"

text \<open>Python's \<open>int(x)\<close> on a float: truncation toward zero.\<close>

definition py_int :: "real \<Rightarrow> int" where
  "py_int x = (if 0 \<le> x then \<lfloor>x\<rfloor> else \<lceil>x\<rceil>)"

section \<open>validation_optimization.py: configuration\<close>

record selective_validation_config =
  sv_enabled :: bool
  check_data_hash :: bool
  check_schema_changes :: bool
  check_row_count_changes :: bool
  row_count_threshold :: real
  skip_unchanged_data :: bool

record sampling_config =
  sampling_enabled :: bool
  threshold_rows :: int
  sampling_method :: string
  sample_size :: real
  min_sample_rows :: int
  stratify_columns :: "string list"

record caching_config =
  caching_enabled :: bool
  ttl_seconds :: real
  max_cache_entries :: int
  cache_expectations :: bool
  cache_validation_results :: bool

record optimization_config =
  selective_validation :: selective_validation_config
  sampling :: sampling_config
  caching :: caching_config

text \<open>\<open>DEFAULT_CONFIG["optimization"]\<close>, the sections the modelled methods read.\<close>

definition DEFAULT_CONFIG :: optimization_config where
  "DEFAULT_CONFIG =
     \<lparr> selective_validation =
         \<lparr> sv_enabled = True, check_data_hash = True, check_schema_changes = True,
           check_row_count_changes = True, row_count_threshold = 5 / 100,
           skip_unchanged_data = True \<rparr>,
       sampling =
         \<lparr> sampling_enabled = True, threshold_rows = 1000000, sampling_method = ''random'',
           sample_size = 1 / 10, min_sample_rows = 100000, stratify_columns = [] \<rparr>,
       caching =
         \<lparr> caching_enabled = True, ttl_seconds = 3600, max_cache_entries = 100,
           cache_expectations = True, cache_validation_results = True \<rparr> \<rparr>"

section \<open>DataFrames and the optimizer object\<close>

text \<open>
  A Spark DataFrame as the optimizer observes it: its column names, its rows (kept per
  partition, as \<open>monotonically_increasing_id\<close> numbers them per partition), and the
  outcome of the two hashing pipelines. \<open>df_schema_digest\<close> is what the \<open>try\<close> body of
  \<open>_compute_schema_hash\<close> yields (the MD5 hex digest of \<open>str(df.schema)\<close>, or the
  exception raised on the way); \<open>df_sample_digest\<close> is the same for the body of
  \<open>_compute_data_hash\<close> (sample, \<open>toPandas\<close>, sort, \<open>to_csv\<close>, MD5).
\<close>

record 'r dataframe =
  df_columns :: "string list"
  df_partitions :: "'r list list"
  df_schema_digest :: "py_error + string"
  df_sample_digest :: "py_error + string"

definition df_count :: "'r dataframe \<Rightarrow> nat" where
  "df_count df = length (concat (df_partitions df))"

record 'v cache_entry =
  entry_timestamp :: real
  entry_result :: 'v

text \<open>
  The fields of a \<open>ValidationOptimizer\<close>. The dictionaries are maps from the key string;
  a stored hash may be \<open>None\<close>, since \<open>_update_data_metadata\<close> stores whatever the hash
  functions returned. The cache is kept in insertion order.
\<close>

record 'v optimizer =
  config :: optimization_config
  cache :: "(string \<times> 'v cache_entry) list"
  data_hashes :: "string \<rightharpoonup> string option"
  schema_hashes :: "string \<rightharpoonup> string option"
  row_counts :: "string \<rightharpoonup> nat"

text \<open>The object \<open>__init__\<close> builds, for a loaded configuration.\<close>

definition init_optimizer :: "optimization_config \<Rightarrow> 'v optimizer" where
  "init_optimizer c =
     \<lparr> config = c, cache = [], data_hashes = Map.empty, schema_hashes = Map.empty,
       row_counts = Map.empty \<rparr>"

section \<open>Fingerprints and change detection\<close>

text \<open>\<open>_compute_data_hash\<close>: any exception is logged and turned into \<open>None\<close>.\<close>

definition compute_data_hash :: "'r dataframe \<Rightarrow> string option" where
  "compute_data_hash df = (case df_sample_digest df of Inl e \<Rightarrow> None | Inr h \<Rightarrow> Some h)"

text \<open>\<open>_compute_schema_hash\<close>: likewise.\<close>

definition compute_schema_hash :: "'r dataframe \<Rightarrow> string option" where
  "compute_schema_hash df = (case df_schema_digest df of Inl e \<Rightarrow> None | Inr h \<Rightarrow> Some h)"

text \<open>The key \<open>f"{layer}_{dataset}"\<close>.\<close>

definition metadata_key :: "string \<Rightarrow> string \<Rightarrow> string" where
  "metadata_key layer dataset = layer @ ''_'' @ dataset"

text \<open>
  The row-count block of \<open>_should_validate\<close> (lines 245 to 261): \<open>Inr True\<close> is its
  \<open>return True\<close>, \<open>Inr False\<close> is falling through to the next check.
\<close>

definition row_count_check :: "selective_validation_config \<Rightarrow> nat option \<Rightarrow> nat \<Rightarrow> py_error + bool" where
  "row_count_check sv previous current_row_count =
     (if check_row_count_changes sv then
        (case previous of
           None \<Rightarrow> Inr False
         | Some previous_row_count \<Rightarrow>
             if previous_row_count > 0 then
               (case py_truediv (real_of_int \<bar>int current_row_count - int previous_row_count\<bar>)
                       (real previous_row_count) of
                  Inl e \<Rightarrow> Inl e
                | Inr change_percent \<Rightarrow>
                    if change_percent \<le> row_count_threshold sv then Inr False else Inr True)
             else Inr True)
      else Inr False)"

text \<open>The schema block (lines 264 to 272): does it return \<open>True\<close>?\<close>

definition schema_check :: "selective_validation_config \<Rightarrow> string option option \<Rightarrow> 'r dataframe \<Rightarrow> bool" where
  "schema_check sv previous df =
     (if check_schema_changes sv then
        (let current_schema_hash = compute_schema_hash df in
         case previous of
           None \<Rightarrow> False
         | Some previous_schema_hash \<Rightarrow> current_schema_hash \<noteq> previous_schema_hash)
      else False)"

text \<open>The data-hash block (lines 275 to 283).\<close>

definition data_hash_check :: "selective_validation_config \<Rightarrow> string option option \<Rightarrow> 'r dataframe \<Rightarrow> bool" where
  "data_hash_check sv previous df =
     (if check_data_hash sv then
        (let current_data_hash = compute_data_hash df in
         case previous of
           None \<Rightarrow> False
         | Some previous_data_hash \<Rightarrow> current_data_hash \<noteq> previous_data_hash)
      else False)"

text \<open>\<open>_should_validate\<close>: \<open>Inr True\<close> is validate, \<open>Inr False\<close> is skip.\<close>

definition should_validate :: "'v optimizer \<Rightarrow> 'r dataframe \<Rightarrow> string \<Rightarrow> string \<Rightarrow> py_error + bool" where
  "should_validate self df layer dataset =
     (let sv = selective_validation (config self) in
      if \<not> sv_enabled sv then Inr True
      else
        let key = metadata_key layer dataset;
            current_row_count = df_count df
        in case row_count_check sv (row_counts self key) current_row_count of
             Inl e \<Rightarrow> Inl e
           | Inr True \<Rightarrow> Inr True
           | Inr False \<Rightarrow>
               if schema_check sv (schema_hashes self key) df then Inr True
               else if data_hash_check sv (data_hashes self key) df then Inr True
               else if skip_unchanged_data sv then Inr False
               else Inr True)"

text \<open>\<open>_update_data_metadata\<close>: the three dictionaries are overwritten for the key.\<close>

definition update_data_metadata :: "'v optimizer \<Rightarrow> 'r dataframe \<Rightarrow> string \<Rightarrow> string \<Rightarrow> 'v optimizer" where
  "update_data_metadata self df layer dataset =
     (let key = metadata_key layer dataset in
      self \<lparr> row_counts := (row_counts self)(key \<mapsto> df_count df),
             schema_hashes := (schema_hashes self)(key \<mapsto> compute_schema_hash df),
             data_hashes := (data_hashes self)(key \<mapsto> compute_data_hash df) \<rparr>)"

section \<open>Sampling\<close>

text \<open>
  The names bound at module level in \<open>validation_optimization.py\<close>: its imports
  (lines 17 to 38), \<open>logger\<close>, the path constants, \<open>DEFAULT_CONFIG\<close> and the class.
  A name a method uses that is neither local, nor here, nor a builtin raises
  \<open>NameError\<close> when the line runs.
\<close>

definition module_globals :: "string list" where
  "module_globals =
     [''os'', ''sys'', ''logging'', ''json'', ''datetime'', ''hashlib'', ''pickle'',
      ''lru_cache'', ''pd'', ''np'', ''ge'', ''RuntimeBatchRequest'', ''Validator'',
      ''SparkSession'', ''multiprocessing'', ''ThreadPoolExecutor'', ''ProcessPoolExecutor'',
      ''create_data_context'', ''configure_spark_datasource'', ''logger'', ''BASE_DIR'',
      ''CONFIG_DIR'', ''CACHE_DIR'', ''DEFAULT_CONFIG'', ''ValidationOptimizer'']"

definition lookup_global :: "string \<Rightarrow> py_error + unit" where
  "lookup_global name = (if name \<in> set module_globals then Inr () else Inl NameError)"

text \<open>
  Spark's randomised operations are parameters of the model: \<open>df.sample(False, fraction)\<close>
  and \<open>df.sampleBy(columns, fractions, seed=42)\<close> with one fraction for every group, both
  on the partitioned rows.
\<close>

record 'r spark =
  sample :: "real \<Rightarrow> 'r list list \<Rightarrow> 'r list list"
  sample_by :: "string list \<Rightarrow> real \<Rightarrow> 'r list list \<Rightarrow> 'r list list"

text \<open>
  Spark's \<open>monotonically_increasing_id\<close>: the partition index in the upper bits, the
  position within the partition in the lower 33 bits.
\<close>

definition monotonically_increasing_id :: "'r list list \<Rightarrow> (nat \<times> 'r) list list" where
  "monotonically_increasing_id parts =
     map (\<lambda>(p, rows). zip (map (\<lambda>i. p * 2 ^ 33 + i) [0..<length rows]) rows)
       (zip [0..<length parts] parts)"

text \<open>\<open>filter(row_num % step == 0).drop("row_num")\<close>; a zero step gives null, which filters the row out.\<close>

definition filter_step :: "int \<Rightarrow> (nat \<times> 'r) list list \<Rightarrow> 'r list list" where
  "filter_step step parts =
     map (\<lambda>rows. map snd (filter (\<lambda>(row_num, r). step \<noteq> 0 \<and> int row_num mod step = 0) rows)) parts"

text \<open>Lines 347 and 348: \<open>step = int(1 / actual_fraction)\<close>, then the filter on \<open>row_num\<close>.\<close>

definition systematic_rows :: "real \<Rightarrow> (nat \<times> 'r) list list \<Rightarrow> py_error + 'r list list" where
  "systematic_rows actual_fraction numbered =
     (case py_truediv 1 actual_fraction of
        Inl e \<Rightarrow> Inl e
      | Inr ratio \<Rightarrow> Inr (filter_step (py_int ratio) numbered))"

text \<open>
  \<open>_apply_sampling\<close> (lines 312 to 374), returning the partitioned rows of the DataFrame
  it returns. The systematic branch first evaluates \<open>F.monotonically_increasing_id()\<close>.
\<close>

definition apply_sampling :: "'r spark \<Rightarrow> 'v optimizer \<Rightarrow> 'r dataframe \<Rightarrow> py_error + 'r list list" where
  "apply_sampling spark self df =
     (let sc = sampling (config self) in
      if \<not> sampling_enabled sc then Inr (df_partitions df)
      else
        let row_count = df_count df in
        if int row_count \<le> threshold_rows sc then Inr (df_partitions df)
        else
          let actual_sample_size = max (min_sample_rows sc) (py_int (real row_count * sample_size sc)) in
          case py_truediv (real_of_int actual_sample_size) (real row_count) of
            Inl e \<Rightarrow> Inl e
          | Inr q \<Rightarrow>
              let actual_fraction = min 1 q in
              if sampling_method sc = ''random'' then Inr (sample spark actual_fraction (df_partitions df))
              else if sampling_method sc = ''systematic'' then
                (case lookup_global ''F'' of
                   Inl e \<Rightarrow> Inl e
                 | Inr u \<Rightarrow> systematic_rows actual_fraction (monotonically_increasing_id (df_partitions df)))
              else if sampling_method sc = ''stratified'' then
                (if stratify_columns sc = [] then Inr (sample spark actual_fraction (df_partitions df))
                 else
                   let valid_stratify_columns = filter (\<lambda>col. col \<in> set (df_columns df)) (stratify_columns sc) in
                   if valid_stratify_columns = [] then Inr (sample spark actual_fraction (df_partitions df))
                   else Inr (sample_by spark valid_stratify_columns (min 1 q) (df_partitions df)))
              else Inr (sample spark actual_fraction (df_partitions df)))"

section \<open>Result cache\<close>







section \<open>monitoring_alerts.py: configuration and summaries\<close>

record threshold_rule =
  th_success_rate :: real
  th_failed_validations :: int
  th_failed_expectations :: int

text \<open>
  \<open>config["alert_thresholds"]\<close>: the entry \<open>"global"\<close>, the entry \<open>"datasets"\<close> (rules by
  dataset name) and the remaining keys, which are layer names.
\<close>

record alert_thresholds_config =
  th_global :: threshold_rule
  th_layers :: "(string \<times> threshold_rule) list"
  th_datasets :: "(string \<times> threshold_rule) list"

record severity_levels_config =
  critical_threshold :: real
  high_threshold :: real
  medium_threshold :: real
  low_threshold :: real

record alert_history_config =
  retention_days :: int
  max_entries :: int

record alert_config =
  alert_thresholds :: alert_thresholds_config
  alert_severity_levels :: severity_levels_config
  alert_history_limits :: alert_history_config

definition rule :: "real \<Rightarrow> int \<Rightarrow> int \<Rightarrow> threshold_rule" where
  "rule r v e = \<lparr> th_success_rate = r, th_failed_validations = v, th_failed_expectations = e \<rparr>"

text \<open>\<open>DEFAULT_CONFIG\<close> of \<open>monitoring_alerts.py\<close>, the sections the modelled methods read.\<close>

definition DEFAULT_CONFIG_alerts :: alert_config where
  "DEFAULT_CONFIG_alerts =
     \<lparr> alert_thresholds =
         \<lparr> th_global = rule 90 3 5,
           th_layers = [(''bronze'', rule 85 5 10), (''silver'', rule 90 3 7), (''gold'', rule 95 1 3)],
           th_datasets =
             [(''user_activity'', rule 90 2 5), (''orders'', rule 95 1 3), (''inventory'', rule 95 1 3),
              (''dim_customer'', rule 98 0 1), (''dim_product'', rule 98 0 1),
              (''fact_sales'', rule 98 0 1), (''kpi_revenue'', rule 100 0 0)] \<rparr>,
       alert_severity_levels =
         \<lparr> critical_threshold = 95, high_threshold = 90, medium_threshold = 80, low_threshold = 70 \<rparr>,
       alert_history_limits = \<lparr> retention_days = 90, max_entries = 1000 \<rparr> \<rparr>"

text \<open>The validation summary of \<open>ValidationReporter\<close>, as \<open>check_thresholds\<close> reads it.\<close>

record layer_data =
  layer_total :: int
  layer_success :: int
  layer_failure :: int
  layer_rate :: real

record dataset_data =
  ds_layer :: string
  ds_success :: bool
  ds_success_rate :: real
  ds_failed_expectations :: int

record validation_summary =
  sum_success_rate :: real
  sum_failed_validations :: int
  sum_layers :: "(string \<times> layer_data) list"
  sum_datasets :: "(string \<times> dataset_data) list"

text \<open>
  A breach dictionary, without its \<open>description\<close> text. The numbers are floats or
  integers in the source; integers are embedded in the reals.
\<close>

record breach =
  breach_level :: string
  breach_layer :: "string option"
  breach_dataset :: "string option"
  breach_type :: string
  breach_threshold :: real
  breach_actual :: real

section \<open>Threshold evaluation\<close>

text \<open>The breach dictionaries that \<open>check_thresholds\<close> appends, one definition per literal.\<close>

definition global_success_rate_breach :: "threshold_rule \<Rightarrow> validation_summary \<Rightarrow> breach" where
  "global_success_rate_breach global_thresholds validation_summary =
     \<lparr> breach_level = ''global'', breach_layer = None, breach_dataset = None,
       breach_type = ''success_rate'',
       breach_threshold = th_success_rate global_thresholds,
       breach_actual = sum_success_rate validation_summary \<rparr>"

definition global_failed_validations_breach :: "threshold_rule \<Rightarrow> validation_summary \<Rightarrow> breach" where
  "global_failed_validations_breach global_thresholds validation_summary =
     \<lparr> breach_level = ''global'', breach_layer = None, breach_dataset = None,
       breach_type = ''failed_validations'',
       breach_threshold = of_int (th_failed_validations global_thresholds),
       breach_actual = of_int (sum_failed_validations validation_summary) \<rparr>"

definition layer_success_rate_breach :: "string \<Rightarrow> layer_data \<Rightarrow> threshold_rule \<Rightarrow> breach" where
  "layer_success_rate_breach layer_name layer_data layer_thresholds =
     \<lparr> breach_level = ''layer'', breach_layer = Some layer_name, breach_dataset = None,
       breach_type = ''success_rate'',
       breach_threshold = th_success_rate layer_thresholds,
       breach_actual = layer_rate layer_data \<rparr>"

definition layer_failed_validations_breach :: "string \<Rightarrow> layer_data \<Rightarrow> threshold_rule \<Rightarrow> breach" where
  "layer_failed_validations_breach layer_name layer_data layer_thresholds =
     \<lparr> breach_level = ''layer'', breach_layer = Some layer_name, breach_dataset = None,
       breach_type = ''failed_validations'',
       breach_threshold = of_int (th_failed_validations layer_thresholds),
       breach_actual = of_int (layer_failure layer_data) \<rparr>"

definition dataset_success_rate_breach :: "string \<Rightarrow> dataset_data \<Rightarrow> threshold_rule \<Rightarrow> breach" where
  "dataset_success_rate_breach dataset_name dataset_data dataset_thresholds =
     \<lparr> breach_level = ''dataset'', breach_layer = Some (ds_layer dataset_data),
       breach_dataset = Some dataset_name, breach_type = ''success_rate'',
       breach_threshold = th_success_rate dataset_thresholds,
       breach_actual = ds_success_rate dataset_data \<rparr>"

text \<open>The zero-tolerance breach; its type string is the singular \<open>"failed_validation"\<close>.\<close>

definition dataset_failed_validation_breach :: "string \<Rightarrow> dataset_data \<Rightarrow> threshold_rule \<Rightarrow> breach" where
  "dataset_failed_validation_breach dataset_name dataset_data dataset_thresholds =
     \<lparr> breach_level = ''dataset'', breach_layer = Some (ds_layer dataset_data),
       breach_dataset = Some dataset_name, breach_type = ''failed_validation'',
       breach_threshold = of_int (th_failed_validations dataset_thresholds),
       breach_actual = 1 \<rparr>"

definition dataset_failed_expectations_breach :: "string \<Rightarrow> dataset_data \<Rightarrow> threshold_rule \<Rightarrow> breach" where
  "dataset_failed_expectations_breach dataset_name dataset_data dataset_thresholds =
     \<lparr> breach_level = ''dataset'', breach_layer = Some (ds_layer dataset_data),
       breach_dataset = Some dataset_name, breach_type = ''failed_expectations'',
       breach_threshold = of_int (th_failed_expectations dataset_thresholds),
       breach_actual = of_int (ds_failed_expectations dataset_data) \<rparr>"

text \<open>Lines 306 to 324.\<close>

definition global_breaches :: "threshold_rule \<Rightarrow> validation_summary \<Rightarrow> breach list" where
  "global_breaches global_thresholds validation_summary =
     (if sum_success_rate validation_summary < th_success_rate global_thresholds
      then [global_success_rate_breach global_thresholds validation_summary] else []) @
     (if sum_failed_validations validation_summary > th_failed_validations global_thresholds
      then [global_failed_validations_breach global_thresholds validation_summary] else [])"

text \<open>Lines 331 to 349, for one layer that has thresholds.\<close>

definition layer_breaches :: "string \<Rightarrow> layer_data \<Rightarrow> threshold_rule \<Rightarrow> breach list" where
  "layer_breaches layer_name layer_data layer_thresholds =
     (if layer_rate layer_data < th_success_rate layer_thresholds
      then [layer_success_rate_breach layer_name layer_data layer_thresholds] else []) @
     (if layer_failure layer_data > th_failed_validations layer_thresholds
      then [layer_failed_validations_breach layer_name layer_data layer_thresholds] else [])"

text \<open>
  What \<open>self.config["alert_thresholds"][layer_name]\<close> is when \<open>layer_name\<close> is a key: a
  rule, or for the key \<open>"datasets"\<close> the dictionary of dataset rules.
\<close>

datatype alert_thresholds_entry = Rule threshold_rule | Datasets "(string \<times> threshold_rule) list"

definition alert_thresholds_get :: "alert_thresholds_config \<Rightarrow> string \<Rightarrow> alert_thresholds_entry option" where
  "alert_thresholds_get c name =
     (if name = ''global'' then Some (Rule (th_global c))
      else if name = ''datasets'' then Some (Datasets (th_datasets c))
      else map_option Rule (map_of (th_layers c) name))"

text \<open>
  One iteration of the layer loop (lines 327 to 349). For the key \<open>"datasets"\<close> the
  subscript \<open>["success_rate"]\<close> finds no such dataset (\<open>KeyError\<close>) or a dictionary that
  a float cannot be compared with (\<open>TypeError\<close>).
\<close>

definition check_layer :: "alert_thresholds_config \<Rightarrow> string \<Rightarrow> layer_data \<Rightarrow> py_error + breach list" where
  "check_layer c layer_name layer_data =
     (case alert_thresholds_get c layer_name of
        None \<Rightarrow> Inr []
      | Some (Rule layer_thresholds) \<Rightarrow> Inr (layer_breaches layer_name layer_data layer_thresholds)
      | Some (Datasets ds) \<Rightarrow>
          Inl (if ''success_rate'' \<in> fst ` set ds then TypeError else KeyError))"

fun check_layers :: "alert_thresholds_config \<Rightarrow> (string \<times> layer_data) list \<Rightarrow> py_error + breach list" where
  "check_layers c [] = Inr []"
| "check_layers c ((layer_name, layer_data) # rest) =
     (case check_layer c layer_name layer_data of
        Inl e \<Rightarrow> Inl e
      | Inr found \<Rightarrow>
          (case check_layers c rest of
             Inl e \<Rightarrow> Inl e
           | Inr later \<Rightarrow> Inr (found @ later)))"

text \<open>Lines 356 to 387, for one dataset that has thresholds.\<close>

definition dataset_breaches :: "string \<Rightarrow> dataset_data \<Rightarrow> threshold_rule \<Rightarrow> breach list" where
  "dataset_breaches dataset_name dataset_data dataset_thresholds =
     (if ds_success_rate dataset_data < th_success_rate dataset_thresholds
      then [dataset_success_rate_breach dataset_name dataset_data dataset_thresholds] else []) @
     (if \<not> ds_success dataset_data \<and> th_failed_validations dataset_thresholds = 0
      then [dataset_failed_validation_breach dataset_name dataset_data dataset_thresholds] else []) @
     (if ds_failed_expectations dataset_data > th_failed_expectations dataset_thresholds
      then [dataset_failed_expectations_breach dataset_name dataset_data dataset_thresholds] else [])"

fun check_datasets :: "alert_thresholds_config \<Rightarrow> (string \<times> dataset_data) list \<Rightarrow> breach list" where
  "check_datasets c [] = []"
| "check_datasets c ((dataset_name, dataset_data) # rest) =
     (case map_of (th_datasets c) dataset_name of
        None \<Rightarrow> check_datasets c rest
      | Some dataset_thresholds \<Rightarrow>
          dataset_breaches dataset_name dataset_data dataset_thresholds @ check_datasets c rest)"

text \<open>\<open>check_thresholds\<close> (lines 291 to 394): the breaches in the order they are appended.\<close>

definition check_thresholds :: "alert_config \<Rightarrow> validation_summary \<Rightarrow> py_error + breach list" where
  "check_thresholds self_config validation_summary =
     (let c = alert_thresholds self_config in
      case check_layers c (sum_layers validation_summary) of
        Inl e \<Rightarrow> Inl e
      | Inr layer_found \<Rightarrow>
          Inr (global_breaches (th_global c) validation_summary @ layer_found @
               check_datasets c (sum_datasets validation_summary)))"

section \<open>Severity\<close>

datatype severity = Low | Medium | High | Critical

text \<open>The order critical > high > medium > low > none.\<close>

fun severity_rank :: "severity option \<Rightarrow> nat" where
  "severity_rank None = 0"
| "severity_rank (Some Low) = 1"
| "severity_rank (Some Medium) = 2"
| "severity_rank (Some High) = 3"
| "severity_rank (Some Critical) = 4"

text \<open>
  The loop of lines 412 to 418, with \<open>breach_percentage\<close> as accumulator: only
  \<open>success_rate\<close> breaches count, and a zero threshold raises \<open>ZeroDivisionError\<close>.
\<close>

fun breach_percentage_loop :: "real \<Rightarrow> breach list \<Rightarrow> py_error + real" where
  "breach_percentage_loop breach_percentage [] = Inr breach_percentage"
| "breach_percentage_loop breach_percentage (b # rest) =
     (if breach_type b = ''success_rate'' then
        (case py_truediv (breach_threshold b - breach_actual b) (breach_threshold b) of
           Inl e \<Rightarrow> Inl e
         | Inr q \<Rightarrow> breach_percentage_loop (max breach_percentage (q * 100)) rest)
      else breach_percentage_loop breach_percentage rest)"

text \<open>Lines 409 to 418: the accumulator starts at 0.\<close>

definition breach_percentage_of :: "breach list \<Rightarrow> py_error + real" where
  "breach_percentage_of breaches = breach_percentage_loop 0 breaches"

text \<open>
  The spec's words for the same quantity: \<open>percentBelow\<close> of one breach, and the
  \<open>success_rate\<close> breaches of a list, over which the maximum is taken.
\<close>

definition percent_below :: "breach \<Rightarrow> real" where
  "percent_below b = (breach_threshold b - breach_actual b) / breach_threshold b * 100"

definition success_rate_breaches :: "breach list \<Rightarrow> breach set" where
  "success_rate_breaches breaches = {b \<in> set breaches. breach_type b = ''success_rate''}"

text \<open>
  Modelled from the spec: the end of \<open>determine_severity\<close>, which is cut off in the
  source under \<open>src/\<close> after \<open>severity_levels = \<close> (line 421). The spec: pick the highest
  severity level whose configured threshold is at most the maximum (levels ordered
  critical > high > medium > low); below the lowest level's threshold no severity is
  raised.
\<close>

definition classify :: "severity_levels_config \<Rightarrow> real \<Rightarrow> severity option" where
  "classify severity_levels breach_percentage =
     (if critical_threshold severity_levels \<le> breach_percentage then Some Critical
      else if high_threshold severity_levels \<le> breach_percentage then Some High
      else if medium_threshold severity_levels \<le> breach_percentage then Some Medium
      else if low_threshold severity_levels \<le> breach_percentage then Some Low
      else None)"

text \<open>
  \<open>determine_severity\<close> (lines 396 to 421, then \<open>classify\<close>): \<open>Inr None\<close> is the \<open>None\<close>
  of an empty breach list, or no severity.
\<close>

definition determine_severity :: "alert_config \<Rightarrow> breach list \<Rightarrow> py_error + severity option" where
  "determine_severity self_config breaches =
     (if breaches = [] then Inr None
      else
        (case breach_percentage_of breaches of
           Inl e \<Rightarrow> Inl e
         | Inr breach_percentage \<Rightarrow>
             Inr (classify (alert_severity_levels self_config) breach_percentage)))"

section \<open>Alert history\<close>

text \<open>An alert record: its \<open>"timestamp"\<close> entry, if it has one, and the rest of it.\<close>

record 'a alert =
  alert_timestamp :: "string option"
  alert_body :: 'a

text \<open>\<open>alert.get("timestamp", "0")\<close>.\<close>

definition timestamp_or_zero :: "'a alert \<Rightarrow> string" where
  "timestamp_or_zero a = (case alert_timestamp a of None \<Rightarrow> ''0'' | Some t \<Rightarrow> t)"

text \<open>Python's slice \<open>xs[i:]\<close>: a negative start counts from the end.\<close>

definition py_slice_from :: "int \<Rightarrow> 'a list \<Rightarrow> 'a list" where
  "py_slice_from i xs =
     (if i < 0 then drop (nat (max 0 (int (length xs) + i))) xs else drop (nat i) xs)"

text \<open>
  The pruning of \<open>_save_alert_history\<close> (lines 271 to 282): the list that becomes
  \<open>self.alert_history\<close> and is written to the file. \<open>cutoff_date\<close> is the value of
  \<open>(datetime.datetime.now() - datetime.timedelta(days=retention_days)).isoformat()\<close> at
  the time of the save; strings compare lexicographically.
\<close>

definition save_alert_history :: "string \<Rightarrow> alert_config \<Rightarrow> 'a alert list \<Rightarrow> 'a alert list" where
  "save_alert_history cutoff_date self_config alert_history =
     (let max_entries' = max_entries (alert_history_limits self_config);
          retention_days' = retention_days (alert_history_limits self_config);
          trimmed = (if int (length alert_history) > max_entries'
                     then py_slice_from (- max_entries') alert_history
                     else alert_history)
      in if retention_days' > 0
         then filter (\<lambda>alert. timestamp_or_zero alert \<ge> cutoff_date) trimmed
         else trimmed)"

section \<open>Example inputs\<close>

text \<open>A one-partition DataFrame of \<open>n\<close> rows with the given hashing outcomes.\<close>

definition example_df :: "nat \<Rightarrow> py_error + string \<Rightarrow> py_error + string \<Rightarrow> unit dataframe" where
  "example_df n schema_outcome sample_outcome =
     \<lparr> df_columns = [''order_id'', ''amount''], df_partitions = [replicate n ()],
       df_schema_digest = schema_outcome, df_sample_digest = sample_outcome \<rparr>"

text \<open>
  A summary of one failed run of \<open>orders\<close> in the silver layer, with 10 of 20
  expectations failed.
\<close>

definition example_orders :: dataset_data where
  "example_orders =
     \<lparr> ds_layer = ''silver'', ds_success = False, ds_success_rate = 50, ds_failed_expectations = 10 \<rparr>"

definition example_silver :: layer_data where
  "example_silver = \<lparr> layer_total = 1, layer_success = 0, layer_failure = 1, layer_rate = 0 \<rparr>"

definition example_summary :: validation_summary where
  "example_summary =
     \<lparr> sum_success_rate = 0, sum_failed_validations = 1,
       sum_layers = [(''silver'', example_silver)],
       sum_datasets = [(''orders'', example_orders)] \<rparr>"

text \<open>A failed run of \<open>kpi_revenue\<close> whose success rate is nevertheless 100.\<close>

definition example_kpi_summary :: validation_summary where
  "example_kpi_summary =
     \<lparr> sum_success_rate = 100, sum_failed_validations = 1,
       sum_layers = [(''gold'', \<lparr> layer_total = 1, layer_success = 0, layer_failure = 1, layer_rate = 100 \<rparr>)],
       sum_datasets =
         [(''kpi_revenue'',
           \<lparr> ds_layer = ''gold'', ds_success = False, ds_success_rate = 100, ds_failed_expectations = 0 \<rparr>)] \<rparr>"

text \<open>A \<open>success_rate\<close> breach of the rule \<open>success_rate = 95\<close> at the given actual rate.\<close>

definition example_rate_breach :: "real \<Rightarrow> breach" where
  "example_rate_breach actual =
     \<lparr> breach_level = ''dataset'', breach_layer = Some ''silver'', breach_dataset = Some ''orders'',
       breach_type = ''success_rate'', breach_threshold = 95, breach_actual = actual \<rparr>"

text \<open>
  A history of two alerts raised on 1 and 2 November 2026, the cutoff of a save on
  3 November with 90 days of retention, and a configuration with \<open>max_entries = 0\<close>.
\<close>

definition example_history :: "string alert list" where
  "example_history =
     [\<lparr> alert_timestamp = Some ''2026-11-01T09:30:00'', alert_body = ''critical'' \<rparr>,
      \<lparr> alert_timestamp = Some ''2026-11-02T09:30:00'', alert_body = ''high'' \<rparr>]"

definition example_cutoff_date :: string where
  "example_cutoff_date = ''2026-08-05T12:00:00''"

definition zero_max_entries_config :: alert_config where
  "zero_max_entries_config =
     DEFAULT_CONFIG_alerts \<lparr> alert_history_limits := \<lparr> retention_days = 90, max_entries = 0 \<rparr> \<rparr>"

text \<open>A new optimizer with the default configuration.\<close>

definition fresh_optimizer :: "string optimizer" where
  "fresh_optimizer = init_optimizer DEFAULT_CONFIG"

text \<open>A new optimizer whose configuration asks for systematic sampling.\<close>

definition systematic_optimizer :: "string optimizer" where
  "systematic_optimizer =
     init_optimizer (DEFAULT_CONFIG \<lparr> sampling := (sampling DEFAULT_CONFIG) \<lparr> sampling_method := ''systematic'' \<rparr> \<rparr>)"



section \<open>Change detection: properties\<close>

lemma row_count_check_zero_previous:
  "check_row_count_changes sv \<Longrightarrow> row_count_check sv (Some 0) n = Inr True"
  by (simp add: row_count_check_def)

lemma row_count_check_positive_previous:
  "check_row_count_changes sv \<Longrightarrow> 0 < p \<Longrightarrow>
   row_count_check sv (Some p) n =
     Inr (\<not> real_of_int \<bar>int n - int p\<bar> / real p \<le> row_count_threshold sv)"
  by (simp add: row_count_check_def py_truediv_def)

lemma row_count_check_never_raises: "\<exists>b. row_count_check sv previous n = Inr b"
  by (cases previous) (auto simp: row_count_check_def py_truediv_def)

lemma df_count_example [simp]: "df_count (example_df n s d) = n"
  by (simp add: df_count_def example_df_def)

lemma example_df_fields [simp]:
  "df_schema_digest (example_df n s d) = s"
  "df_sample_digest (example_df n s d) = d"
  "df_partitions (example_df n s d) = [replicate n ()]"
  "df_columns (example_df n s d) = [''order_id'', ''amount'']"
  by (simp_all add: example_df_def)

lemma compute_hashes_example [simp]:
  "compute_schema_hash (example_df n (Inr s) d) = Some s"
  "compute_schema_hash (example_df n (Inl e) d) = None"
  "compute_data_hash (example_df n s' (Inr h)) = Some h"
  "compute_data_hash (example_df n s' (Inl e)) = None"
  by (simp_all add: compute_schema_hash_def compute_data_hash_def example_df_def)

lemma fresh_optimizer_fields [simp]:
  "config fresh_optimizer = DEFAULT_CONFIG"
  "cache fresh_optimizer = []"
  "row_counts fresh_optimizer k = None"
  "schema_hashes fresh_optimizer k = None"
  "data_hashes fresh_optimizer k = None"
  by (simp_all add: fresh_optimizer_def init_optimizer_def)

lemma default_selective_validation [simp]:
  "sv_enabled (selective_validation DEFAULT_CONFIG)"
  "check_row_count_changes (selective_validation DEFAULT_CONFIG)"
  "check_schema_changes (selective_validation DEFAULT_CONFIG)"
  "check_data_hash (selective_validation DEFAULT_CONFIG)"
  "skip_unchanged_data (selective_validation DEFAULT_CONFIG)"
  "row_count_threshold (selective_validation DEFAULT_CONFIG) = 5 / 100"
  by (simp_all add: DEFAULT_CONFIG_def)

lemma update_data_metadata_fields [simp]:
  "config (update_data_metadata self df layer dataset) = config self"
  "row_counts (update_data_metadata self df layer dataset) (metadata_key layer dataset) = Some (df_count df)"
  "schema_hashes (update_data_metadata self df layer dataset) (metadata_key layer dataset) =
     Some (compute_schema_hash df)"
  "data_hashes (update_data_metadata self df layer dataset) (metadata_key layer dataset) =
     Some (compute_data_hash df)"
  by (simp_all add: update_data_metadata_def Let_def)

text \<open>
  Claim C1 (cold start). The claim says that a key with no stored row count, schema hash
  or data hash is always validated. In the code every one of the three checks is guarded
  by \<open>key in ...\<close> and falls through when the key is absent, so with the default
  configuration (\<open>skip_unchanged_data\<close> on) a new optimizer answers skip for a dataset it
  has never seen. The theorem evaluates the code there.
\<close>

theorem should_validate_cold_start_default_skips:
  "should_validate fresh_optimizer (example_df 1000 (Inr ''5d41402abc4b'') (Inr ''7d793037a076''))
     ''bronze'' ''orders'' = Inr False"
  by (simp add: should_validate_def row_count_check_def schema_check_def data_hash_check_def)

text \<open>
  Claim C2 (skip correctness). For a key with a stored fingerprint whose row count is
  positive, and with selective validation, the three checks and \<open>skip_unchanged_data\<close>
  enabled, \<open>_should_validate\<close> answers skip exactly when the relative row-count change is
  at most the threshold, the schema hash equals the stored one and the data hash equals
  the stored one; if any of the three differs it answers validate.
\<close>

theorem should_validate_skip_correctness:
  assumes "sv_enabled (selective_validation (config self))"
    and "check_row_count_changes (selective_validation (config self))"
    and "check_schema_changes (selective_validation (config self))"
    and "check_data_hash (selective_validation (config self))"
    and "skip_unchanged_data (selective_validation (config self))"
    and "row_counts self (metadata_key layer dataset) = Some previous_row_count"
    and "0 < previous_row_count"
    and "schema_hashes self (metadata_key layer dataset) = Some previous_schema_hash"
    and "data_hashes self (metadata_key layer dataset) = Some previous_data_hash"
  shows "should_validate self df layer dataset =
           Inr (\<not> (real_of_int \<bar>int (df_count df) - int previous_row_count\<bar> / real previous_row_count
                       \<le> row_count_threshold (selective_validation (config self))
                     \<and> compute_schema_hash df = previous_schema_hash
                     \<and> compute_data_hash df = previous_data_hash))"
proof -
  let ?sv = "selective_validation (config self)"
  have rc: "row_count_check ?sv (Some previous_row_count) (df_count df) =
              Inr (\<not> real_of_int \<bar>int (df_count df) - int previous_row_count\<bar> / real previous_row_count
                       \<le> row_count_threshold ?sv)"
    using assms(2,7) by (rule row_count_check_positive_previous)
  have sc: "schema_check ?sv (Some previous_schema_hash) df = (compute_schema_hash df \<noteq> previous_schema_hash)"
    using assms(3) by (simp add: schema_check_def)
  have dc: "data_hash_check ?sv (Some previous_data_hash) df = (compute_data_hash df \<noteq> previous_data_hash)"
    using assms(4) by (simp add: data_hash_check_def)
  show ?thesis
    using assms(1,5,6,8,9) rc sc dc by (auto simp: should_validate_def Let_def split: bool.splits)
qed

text \<open>
  Scenario A of the spec (100000 rows before, 103000 now, threshold 5 percent, hashes
  unchanged) is a skip.
\<close>

theorem should_validate_skip_correctness_witness:
  "should_validate
     (update_data_metadata fresh_optimizer (example_df 100000 (Inr ''5d41'') (Inr ''7d79'')) ''silver'' ''orders'')
     (example_df 103000 (Inr ''5d41'') (Inr ''7d79'')) ''silver'' ''orders'' = Inr False"
  using should_validate_skip_correctness
    [of "update_data_metadata fresh_optimizer (example_df 100000 (Inr ''5d41'') (Inr ''7d79'')) ''silver'' ''orders''"
        "''silver''" "''orders''" 100000 "Some ''5d41''" "Some ''7d79''"
        "example_df 103000 (Inr ''5d41'') (Inr ''7d79'')"]
  by simp

text \<open>
  Claim C4 (fingerprint fail-safe), as the code has it. A failed data hash is the value
  \<open>None\<close>, not a sentinel: it differs from every stored hash that was computed
  successfully, and then, with selective validation and the data-hash check enabled,
  \<open>_should_validate\<close> answers validate.
\<close>

theorem failed_data_hash_forces_validation_against_computed_hash:
  assumes "df_sample_digest df = Inl e"
    and "sv_enabled (selective_validation (config self))"
    and "check_data_hash (selective_validation (config self))"
    and "data_hashes self (metadata_key layer dataset) = Some (Some stored_hash)"
  shows "compute_data_hash df = None \<and> should_validate self df layer dataset = Inr True"
proof -
  let ?sv = "selective_validation (config self)"
  have none: "compute_data_hash df = None"
    using assms(1) by (simp add: compute_data_hash_def)
  have dc: "data_hash_check ?sv (Some (Some stored_hash)) df"
    using assms(3) none by (simp add: data_hash_check_def)
  obtain b where rc: "row_count_check ?sv (row_counts self (metadata_key layer dataset)) (df_count df) = Inr b"
    using row_count_check_never_raises by blast
  have "should_validate self df layer dataset = Inr True"
    using assms(2,4) dc rc by (cases b) (simp_all add: should_validate_def Let_def)
  with none show ?thesis by simp
qed

theorem failed_data_hash_forces_validation_witness:
  "compute_data_hash (example_df 1000 (Inr ''5d41'') (Inl SparkError)) = None \<and>
   should_validate
     (update_data_metadata fresh_optimizer (example_df 1000 (Inr ''5d41'') (Inr ''7d79'')) ''bronze'' ''orders'')
     (example_df 1000 (Inr ''5d41'') (Inl SparkError)) ''bronze'' ''orders'' = Inr True"
  using failed_data_hash_forces_validation_against_computed_hash
    [of "example_df 1000 (Inr ''5d41'') (Inl SparkError)" SparkError
        "update_data_metadata fresh_optimizer (example_df 1000 (Inr ''5d41'') (Inr ''7d79'')) ''bronze'' ''orders''"
        "''bronze''" "''orders''" "''7d79''"]
  by simp

text \<open>
  The claim as stated fails: when the hash fails on two consecutive runs for the same
  key, the stored \<open>None\<close> equals the current \<open>None\<close> and the answer is skip.
\<close>

theorem two_hash_failures_skip_counterexample:
  "compute_data_hash (example_df 1000 (Inr ''5d41'') (Inl SparkError)) = None \<and>
   should_validate
     (update_data_metadata fresh_optimizer (example_df 1000 (Inr ''5d41'') (Inl SparkError)) ''bronze'' ''orders'')
     (example_df 1000 (Inr ''5d41'') (Inl SparkError)) ''bronze'' ''orders'' = Inr False"
  by (simp add: should_validate_def row_count_check_def py_truediv_def schema_check_def
      data_hash_check_def)

text \<open>
  Claim C10 (zero previous row count). With selective validation and the row-count check
  enabled, a key whose stored row count is 0 is validated at once: the row-count block
  returns \<open>True\<close> without reaching the division, and the answer is the same whatever the
  stored and the current schema and data hashes are.
\<close>

theorem should_validate_zero_previous_row_count:
  assumes "sv_enabled (selective_validation (config self))"
    and "check_row_count_changes (selective_validation (config self))"
    and "row_counts self (metadata_key layer dataset) = Some 0"
  shows "row_count_check (selective_validation (config self))
           (row_counts self (metadata_key layer dataset)) (df_count df) = Inr True \<and>
         should_validate (self \<lparr> schema_hashes := stored_schema, data_hashes := stored_data \<rparr>)
           (df \<lparr> df_schema_digest := schema_outcome, df_sample_digest := sample_outcome \<rparr>)
           layer dataset = Inr True"
  using assms by (simp add: should_validate_def row_count_check_def Let_def df_count_def)

theorem should_validate_zero_previous_row_count_witness:
  "row_count_check (selective_validation DEFAULT_CONFIG) (Some 0) 250 = Inr True \<and>
   should_validate
     (update_data_metadata fresh_optimizer (example_df 0 (Inr ''5d41'') (Inr ''7d79'')) ''gold'' ''kpi_revenue''
        \<lparr> schema_hashes := Map.empty, data_hashes := Map.empty \<rparr>)
     (example_df 250 (Inr ''5d41'') (Inr ''7d79'')
        \<lparr> df_schema_digest := Inl SparkError, df_sample_digest := Inr ''ffff'' \<rparr>)
     ''gold'' ''kpi_revenue'' = Inr True"
  using should_validate_zero_previous_row_count
    [where self = "update_data_metadata fresh_optimizer (example_df 0 (Inr ''5d41'') (Inr ''7d79'')) ''gold'' ''kpi_revenue''"
       and layer = "''gold''" and dataset = "''kpi_revenue''"
       and df = "example_df 250 (Inr ''5d41'') (Inr ''7d79'')"
       and stored_schema = Map.empty and stored_data = Map.empty
       and schema_outcome = "Inl SparkError" and sample_outcome = "Inr ''ffff''"]
  by simp

section \<open>Threshold evaluation: properties\<close>

lemma check_layer_returns:
  "layer_name \<noteq> ''datasets'' \<Longrightarrow>
   check_layer c layer_name d =
     Inr (case alert_thresholds_get c layer_name of
            Some (Rule th) \<Rightarrow> layer_breaches layer_name d th
          | _ \<Rightarrow> [])"
  by (auto simp: check_layer_def alert_thresholds_get_def split: option.splits)

lemma check_layers_returns:
  "''datasets'' \<notin> fst ` set ls \<Longrightarrow> \<exists>bs. check_layers c ls = Inr bs"
proof (induction ls)
  case Nil
  then show ?case by simp
next
  case (Cons p ls)
  obtain n d where p: "p = (n, d)" by (cases p)
  from Cons.prems p have n: "n \<noteq> ''datasets''" by auto
  from Cons obtain bs where "check_layers c ls = Inr bs" by auto
  with n p show ?case by (simp add: check_layer_returns)
qed

lemma check_layers_member:
  "check_layers c ls = Inr bs \<Longrightarrow> (n, d) \<in> set ls \<Longrightarrow>
   alert_thresholds_get c n = Some (Rule th) \<Longrightarrow> b \<in> set (layer_breaches n d th) \<Longrightarrow>
   b \<in> set bs"
proof (induction ls arbitrary: bs)
  case Nil
  then show ?case by simp
next
  case (Cons p ls)
  obtain n' d' where p: "p = (n', d')" by (cases p)
  from Cons.prems(1) p obtain found later where
    f: "check_layer c n' d' = Inr found" and l: "check_layers c ls = Inr later" and bs: "bs = found @ later"
    by (auto split: sum.splits)
  show ?case
  proof (cases "(n, d) = (n', d')")
    case True
    with f Cons.prems(3,4) have "b \<in> set found" by (auto simp: check_layer_def)
    with bs show ?thesis by simp
  next
    case False
    with Cons.prems(2) p have "(n, d) \<in> set ls" by auto
    from Cons.IH[OF l this Cons.prems(3,4)] bs show ?thesis by simp
  qed
qed

lemma layer_breaches_kind:
  "b \<in> set (layer_breaches n d th) \<Longrightarrow> breach_level b = ''layer'' \<and> breach_type b \<noteq> ''failed_expectations''"
  by (auto simp: layer_breaches_def layer_success_rate_breach_def layer_failed_validations_breach_def
      split: if_splits)

lemma global_breaches_kind:
  "b \<in> set (global_breaches g s) \<Longrightarrow> breach_level b = ''global'' \<and> breach_type b \<noteq> ''failed_expectations''"
  by (auto simp: global_breaches_def global_success_rate_breach_def global_failed_validations_breach_def
      split: if_splits)

lemma dataset_breaches_level:
  "b \<in> set (dataset_breaches n d th) \<Longrightarrow> breach_level b = ''dataset''"
  by (auto simp: dataset_breaches_def dataset_success_rate_breach_def dataset_failed_validation_breach_def
      dataset_failed_expectations_breach_def split: if_splits)

lemma check_layers_kind:
  "check_layers c ls = Inr bs \<Longrightarrow> b \<in> set bs \<Longrightarrow>
   breach_level b = ''layer'' \<and> breach_type b \<noteq> ''failed_expectations''"
proof (induction ls arbitrary: bs)
  case Nil
  then show ?case by simp
next
  case (Cons p ls)
  obtain n' d' where p: "p = (n', d')" by (cases p)
  from Cons.prems(1) p obtain found later where
    f: "check_layer c n' d' = Inr found" and l: "check_layers c ls = Inr later" and bs: "bs = found @ later"
    by (auto split: sum.splits)
  from Cons.prems(2) bs consider "b \<in> set found" | "b \<in> set later" by auto
  then show ?case
  proof cases
    case 1
    with f show ?thesis
      by (auto simp: check_layer_def dest: layer_breaches_kind split: option.splits alert_thresholds_entry.splits)
  next
    case 2
    with Cons.IH[OF l] show ?thesis by simp
  qed
qed

lemma check_datasets_member:
  "(n, d) \<in> set ds \<Longrightarrow> map_of (th_datasets c) n = Some th \<Longrightarrow>
   b \<in> set (dataset_breaches n d th) \<Longrightarrow> b \<in> set (check_datasets c ds)"
  by (induction ds) (auto split: option.splits)

lemma check_datasets_level:
  "b \<in> set (check_datasets c ds) \<Longrightarrow> breach_level b = ''dataset''"
  by (induction ds) (auto split: option.splits dest: dataset_breaches_level)


lemma check_thresholds_returns:
  assumes "''datasets'' \<notin> fst ` set (sum_layers s)"
  obtains layer_found where
    "check_layers (alert_thresholds cfg) (sum_layers s) = Inr layer_found"
    "check_thresholds cfg s =
       Inr (global_breaches (th_global (alert_thresholds cfg)) s @ layer_found @
            check_datasets (alert_thresholds cfg) (sum_datasets s))"
proof -
  from check_layers_returns[OF assms] obtain bs
    where "check_layers (alert_thresholds cfg) (sum_layers s) = Inr bs" by blast
  then show ?thesis
    using that by (simp add: check_thresholds_def Let_def)
qed

text \<open>
  What \<open>check_thresholds\<close> returns, for a summary none of whose layers is named
  \<open>datasets\<close> (that key of the configuration is not a layer): the list holds every
  matching breach of the kinds the code compares, which are success rate and failed
  validations at global scope and for every layer with a rule, and success rate, zero
  tolerance and failed expectations for every dataset with a rule. A
  \<open>failed_expectations\<close> breach is only ever raised at dataset scope.
\<close>

theorem check_thresholds_breach_coverage:
  assumes "''datasets'' \<notin> fst ` set (sum_layers s)"
  shows "\<exists>bs. check_thresholds cfg s = Inr bs \<and>
     (\<forall>(n, d) \<in> set (sum_datasets s). \<forall>th.
        map_of (th_datasets (alert_thresholds cfg)) n = Some th \<longrightarrow>
          (th_failed_expectations th < ds_failed_expectations d \<longrightarrow>
             dataset_failed_expectations_breach n d th \<in> set bs) \<and>
          (ds_success_rate d < th_success_rate th \<longrightarrow>
             dataset_success_rate_breach n d th \<in> set bs) \<and>
          (\<not> ds_success d \<and> th_failed_validations th = 0 \<longrightarrow>
             dataset_failed_validation_breach n d th \<in> set bs)) \<and>
     (\<forall>(n, d) \<in> set (sum_layers s). \<forall>th.
        alert_thresholds_get (alert_thresholds cfg) n = Some (Rule th) \<longrightarrow>
          (layer_rate d < th_success_rate th \<longrightarrow>
             layer_success_rate_breach n d th \<in> set bs) \<and>
          (th_failed_validations th < layer_failure d \<longrightarrow>
             layer_failed_validations_breach n d th \<in> set bs)) \<and>
     (sum_success_rate s < th_success_rate (th_global (alert_thresholds cfg)) \<longrightarrow>
        global_success_rate_breach (th_global (alert_thresholds cfg)) s \<in> set bs) \<and>
     (th_failed_validations (th_global (alert_thresholds cfg)) < sum_failed_validations s \<longrightarrow>
        global_failed_validations_breach (th_global (alert_thresholds cfg)) s \<in> set bs) \<and>
     (\<forall>b \<in> set bs. breach_type b = ''failed_expectations'' \<longrightarrow> breach_level b = ''dataset'')"
proof -
  let ?c = "alert_thresholds cfg"
  obtain layer_found where
    lf: "check_layers ?c (sum_layers s) = Inr layer_found" and
    ct: "check_thresholds cfg s =
       Inr (global_breaches (th_global ?c) s @ layer_found @ check_datasets ?c (sum_datasets s))"
    using check_thresholds_returns[OF assms] by blast
  define bs where "bs = global_breaches (th_global ?c) s @ layer_found @ check_datasets ?c (sum_datasets s)"
  have datasets: "b \<in> set bs"
    if "(n, d) \<in> set (sum_datasets s)" "map_of (th_datasets ?c) n = Some th"
       "b \<in> set (dataset_breaches n d th)" for n d th b
    using check_datasets_member[OF that] by (simp add: bs_def)
  have layers: "b \<in> set bs"
    if "(n, d) \<in> set (sum_layers s)" "alert_thresholds_get ?c n = Some (Rule th)"
       "b \<in> set (layer_breaches n d th)" for n d th b
    using check_layers_member[OF lf that] by (simp add: bs_def)
  have globals: "b \<in> set bs" if "b \<in> set (global_breaches (th_global ?c) s)" for b
    using that by (simp add: bs_def)
  have p1: "\<forall>(n, d) \<in> set (sum_datasets s). \<forall>th.
        map_of (th_datasets ?c) n = Some th \<longrightarrow>
          (th_failed_expectations th < ds_failed_expectations d \<longrightarrow>
             dataset_failed_expectations_breach n d th \<in> set bs) \<and>
          (ds_success_rate d < th_success_rate th \<longrightarrow>
             dataset_success_rate_breach n d th \<in> set bs) \<and>
          (\<not> ds_success d \<and> th_failed_validations th = 0 \<longrightarrow>
             dataset_failed_validation_breach n d th \<in> set bs)"
    by (auto intro!: datasets simp: dataset_breaches_def)
  have p2: "\<forall>(n, d) \<in> set (sum_layers s). \<forall>th.
        alert_thresholds_get ?c n = Some (Rule th) \<longrightarrow>
          (layer_rate d < th_success_rate th \<longrightarrow>
             layer_success_rate_breach n d th \<in> set bs) \<and>
          (th_failed_validations th < layer_failure d \<longrightarrow>
             layer_failed_validations_breach n d th \<in> set bs)"
    by (auto intro!: layers simp: layer_breaches_def)
  have p3: "sum_success_rate s < th_success_rate (th_global ?c) \<longrightarrow>
        global_success_rate_breach (th_global ?c) s \<in> set bs"
    by (auto intro!: globals simp: global_breaches_def)
  have p4: "th_failed_validations (th_global ?c) < sum_failed_validations s \<longrightarrow>
        global_failed_validations_breach (th_global ?c) s \<in> set bs"
    by (auto intro!: globals simp: global_breaches_def)
  have p5: "\<forall>b \<in> set bs. breach_type b = ''failed_expectations'' \<longrightarrow> breach_level b = ''dataset''"
    using global_breaches_kind check_layers_kind[OF lf] check_datasets_level by (auto simp: bs_def)
  from ct have "check_thresholds cfg s = Inr bs" by (simp add: bs_def)
  with p1 p2 p3 p4 p5 show ?thesis by blast
qed

theorem check_thresholds_breach_coverage_witness:
  "\<exists>bs. check_thresholds DEFAULT_CONFIG_alerts example_summary = Inr bs \<and>
     dataset_failed_expectations_breach ''orders'' example_orders (rule 95 1 3) \<in> set bs \<and>
     dataset_success_rate_breach ''orders'' example_orders (rule 95 1 3) \<in> set bs \<and>
     layer_success_rate_breach ''silver'' example_silver (rule 90 3 7) \<in> set bs \<and>
     global_success_rate_breach (rule 90 3 5) example_summary \<in> set bs"
proof -
  have h: "''datasets'' \<notin> fst ` set (sum_layers example_summary)"
    by (simp add: example_summary_def)
  have ds: "(''orders'', example_orders) \<in> set (sum_datasets example_summary)"
    by (simp add: example_summary_def)
  have ls: "(''silver'', example_silver) \<in> set (sum_layers example_summary)"
    by (simp add: example_summary_def)
  have r1: "map_of (th_datasets (alert_thresholds DEFAULT_CONFIG_alerts)) ''orders'' = Some (rule 95 1 3)"
    by (simp add: DEFAULT_CONFIG_alerts_def)
  have r2: "alert_thresholds_get (alert_thresholds DEFAULT_CONFIG_alerts) ''silver'' = Some (Rule (rule 90 3 7))"
    by (simp add: DEFAULT_CONFIG_alerts_def alert_thresholds_get_def)
  have r3: "th_global (alert_thresholds DEFAULT_CONFIG_alerts) = rule 90 3 5"
    by (simp add: DEFAULT_CONFIG_alerts_def)
  have v: "th_failed_expectations (rule 95 1 3) < ds_failed_expectations example_orders"
    "ds_success_rate example_orders < th_success_rate (rule 95 1 3)"
    "layer_rate example_silver < th_success_rate (rule 90 3 7)"
    "sum_success_rate example_summary < th_success_rate (rule 90 3 5)"
    by (simp_all add: rule_def example_orders_def example_silver_def example_summary_def)
  from check_thresholds_breach_coverage [OF h, of DEFAULT_CONFIG_alerts]
  show ?thesis
    using ds ls r1 r2 r3 v by fastforce
qed

text \<open>
  Claim C3 (threshold scope coverage). The claim says that a \<open>failed_expectations\<close>
  breach is returned at every applicable scope whose count exceeds that scope's limit.
  The configuration declares such a limit for the global scope and for every layer
  (\<open>failed_expectations\<close>, "Maximum allowed failed expectations"), but \<open>check_thresholds\<close>
  reads the limit in the dataset loop only. With the default limits (5 globally, 7 in
  the silver layer) a run of \<open>orders\<close> in the silver layer with 10 failed expectations
  yields the four breaches below: the only \<open>failed_expectations\<close> breach is the
  dataset's, none is raised at global or layer scope. The theorem evaluates the code
  there.
\<close>

theorem check_thresholds_ignores_global_and_layer_failed_expectations:
  "th_failed_expectations (th_global (alert_thresholds DEFAULT_CONFIG_alerts)) = 5 \<and>
   map_option th_failed_expectations
     (map_of (th_layers (alert_thresholds DEFAULT_CONFIG_alerts)) ''silver'') = Some 7 \<and>
   ds_failed_expectations example_orders = 10 \<and>
   check_thresholds DEFAULT_CONFIG_alerts example_summary =
     Inr [global_success_rate_breach (rule 90 3 5) example_summary,
          layer_success_rate_breach ''silver'' example_silver (rule 90 3 7),
          dataset_success_rate_breach ''orders'' example_orders (rule 95 1 3),
          dataset_failed_expectations_breach ''orders'' example_orders (rule 95 1 3)]"
  by (simp add: check_thresholds_def check_layer_def alert_thresholds_get_def global_breaches_def
        layer_breaches_def dataset_breaches_def DEFAULT_CONFIG_alerts_def example_summary_def
        example_orders_def example_silver_def rule_def)


text \<open>
  Claim C5 (zero tolerance). For a dataset of the summary that has a configured rule with
  \<open>failed_validations = 0\<close> and whose outcome has \<open>success = False\<close>, \<open>check_thresholds\<close>
  returns the zero-tolerance breach of that dataset (type \<open>failed_validation\<close>, threshold
  0, actual 1), whatever the dataset's success rate is. The summary's layers are
  pipeline layers: none is named \<open>datasets\<close>, the configuration key on which the layer
  loop raises.
\<close>

theorem check_thresholds_zero_tolerance:
  assumes "''datasets'' \<notin> fst ` set (sum_layers s)"
    and "(dataset_name, dataset_data) \<in> set (sum_datasets s)"
    and "map_of (th_datasets (alert_thresholds cfg)) dataset_name = Some dataset_thresholds"
    and "th_failed_validations dataset_thresholds = 0"
    and "\<not> ds_success dataset_data"
  shows "\<exists>bs. check_thresholds cfg s = Inr bs \<and>
           \<lparr> breach_level = ''dataset'', breach_layer = Some (ds_layer dataset_data),
             breach_dataset = Some dataset_name, breach_type = ''failed_validation'',
             breach_threshold = 0, breach_actual = 1 \<rparr> \<in> set bs"
proof -
  let ?b = "dataset_failed_validation_breach dataset_name dataset_data dataset_thresholds"
  have "?b \<in> set (dataset_breaches dataset_name dataset_data dataset_thresholds)"
    using assms(4,5) by (simp add: dataset_breaches_def)
  then have "?b \<in> set (check_datasets (alert_thresholds cfg) (sum_datasets s))"
    using assms(2,3) check_datasets_member by blast
  moreover obtain layer_found where
    "check_thresholds cfg s =
       Inr (global_breaches (th_global (alert_thresholds cfg)) s @ layer_found @
            check_datasets (alert_thresholds cfg) (sum_datasets s))"
    using check_thresholds_returns[OF assms(1)] by blast
  ultimately show ?thesis
    using assms(4) by (simp add: dataset_failed_validation_breach_def)
qed

theorem check_thresholds_zero_tolerance_witness:
  "\<exists>bs. check_thresholds DEFAULT_CONFIG_alerts example_kpi_summary = Inr bs \<and>
     \<lparr> breach_level = ''dataset'', breach_layer = Some ''gold'',
       breach_dataset = Some ''kpi_revenue'', breach_type = ''failed_validation'',
       breach_threshold = 0, breach_actual = 1 \<rparr> \<in> set bs"
proof -
  let ?d = "\<lparr> ds_layer = ''gold'', ds_success = False, ds_success_rate = 100, ds_failed_expectations = 0 \<rparr>"
  have h1: "''datasets'' \<notin> fst ` set (sum_layers example_kpi_summary)"
    by (simp add: example_kpi_summary_def)
  have h2: "(''kpi_revenue'', ?d) \<in> set (sum_datasets example_kpi_summary)"
    by (simp add: example_kpi_summary_def)
  have h3: "map_of (th_datasets (alert_thresholds DEFAULT_CONFIG_alerts)) ''kpi_revenue'' = Some (rule 100 0 0)"
    by (simp add: DEFAULT_CONFIG_alerts_def)
  have h4: "th_failed_validations (rule 100 0 0) = 0"
    by (simp add: rule_def)
  have h5: "\<not> ds_success ?d"
    by simp
  show ?thesis
    using check_thresholds_zero_tolerance [OF h1 h2 h3 h4 h5] by simp
qed


section \<open>Severity: properties\<close>

lemma classify_mono:
  "p1 \<le> p2 \<Longrightarrow> severity_rank (classify lv p1) \<le> severity_rank (classify lv p2)"
  by (auto simp: classify_def)

lemma breach_percentage_loop_max:
  "breach_percentage_loop acc breaches = Inr p \<Longrightarrow>
   p = Max (insert acc (percent_below ` success_rate_breaches breaches))"
proof (induction breaches arbitrary: acc)
  case Nil
  then show ?case by (simp add: success_rate_breaches_def)
next
  case (Cons b rest)
  show ?case
  proof (cases "breach_type b = ''success_rate''")
    case True
    with Cons.prems have nz: "breach_threshold b \<noteq> 0"
      and rec: "breach_percentage_loop (max acc (percent_below b)) rest = Inr p"
      by (auto simp: py_truediv_def percent_below_def split: if_splits)
    have fin: "finite (percent_below ` success_rate_breaches rest)"
      by (simp add: success_rate_breaches_def)
    have "success_rate_breaches (b # rest) = insert b (success_rate_breaches rest)"
      using True by (auto simp: success_rate_breaches_def)
    moreover have "Max (insert (max acc (percent_below b)) (percent_below ` success_rate_breaches rest)) =
        Max (insert acc (insert (percent_below b) (percent_below ` success_rate_breaches rest)))"
      using fin by (cases "percent_below ` success_rate_breaches rest = {}") (simp_all add: max.assoc)
    ultimately show ?thesis
      using Cons.IH[OF rec] by simp
  next
    case False
    with Cons.prems have rec: "breach_percentage_loop acc rest = Inr p" by simp
    have "success_rate_breaches (b # rest) = success_rate_breaches rest"
      using False by (auto simp: success_rate_breaches_def)
    with Cons.IH[OF rec] show ?thesis by simp
  qed
qed

lemma breach_percentage_loop_lower: "breach_percentage_loop acc breaches = Inr p \<Longrightarrow> acc \<le> p"
proof (induction breaches arbitrary: acc)
  case Nil
  then show ?case by simp
next
  case (Cons b rest)
  then show ?case
    by (fastforce simp: py_truediv_def split: if_splits)
qed

lemma breach_percentage_loop_returns:
  "\<forall>b \<in> set breaches. breach_type b = ''success_rate'' \<longrightarrow> breach_threshold b \<noteq> 0 \<Longrightarrow>
   \<exists>p. breach_percentage_loop acc breaches = Inr p"
  by (induction breaches arbitrary: acc) (auto simp: py_truediv_def)

lemma example_percentages:
  "breach_percentage_of [example_rate_breach 90] = Inr (100 / 19)"
  "breach_percentage_of [example_rate_breach 0] = Inr 100"
  by (simp_all add: breach_percentage_of_def example_rate_breach_def py_truediv_def)

text \<open>
  Claim C6 (severity monotonicity). \<open>determine_severity\<close> takes, over the
  \<open>success_rate\<close> breaches, the maximum of \<open>percentBelow\<close> (never below the initial 0) and
  classifies it by the first level, from critical down, whose threshold is at most that
  maximum. When the percentages \<open>p1 < p2\<close> of two breach lists are computed, both calls
  return and the severity for \<open>p2\<close> is not lower than the one for \<open>p1\<close>.
\<close>

theorem determine_severity_monotone:
  assumes "breach_percentage_of breaches1 = Inr p1"
    and "breach_percentage_of breaches2 = Inr p2"
    and "p1 < p2"
  shows "p2 = Max (insert 0 (percent_below ` success_rate_breaches breaches2)) \<and>
         determine_severity cfg breaches2 = Inr (classify (alert_severity_levels cfg) p2) \<and>
         (\<exists>s1. determine_severity cfg breaches1 = Inr s1 \<and>
               severity_rank s1 \<le> severity_rank (classify (alert_severity_levels cfg) p2))"
proof -
  have max2: "p2 = Max (insert 0 (percent_below ` success_rate_breaches breaches2))"
    using assms(2) unfolding breach_percentage_of_def by (rule breach_percentage_loop_max)
  have "0 \<le> p1"
    using assms(1) unfolding breach_percentage_of_def by (rule breach_percentage_loop_lower)
  with assms(3) have "0 < p2" by simp
  with assms(2) have ne: "breaches2 \<noteq> []"
    by (auto simp: breach_percentage_of_def)
  then have d2: "determine_severity cfg breaches2 = Inr (classify (alert_severity_levels cfg) p2)"
    using assms(2) by (simp add: determine_severity_def)
  have d1: "\<exists>s1. determine_severity cfg breaches1 = Inr s1 \<and>
               severity_rank s1 \<le> severity_rank (classify (alert_severity_levels cfg) p2)"
  proof (cases "breaches1 = []")
    case True
    then show ?thesis by (simp add: determine_severity_def)
  next
    case False
    then have "determine_severity cfg breaches1 = Inr (classify (alert_severity_levels cfg) p1)"
      using assms(1) by (simp add: determine_severity_def)
    moreover have "severity_rank (classify (alert_severity_levels cfg) p1)
        \<le> severity_rank (classify (alert_severity_levels cfg) p2)"
      using assms(3) by (intro classify_mono) simp
    ultimately show ?thesis by simp
  qed
  from max2 d2 d1 show ?thesis by blast
qed

theorem determine_severity_monotone_witness:
  "determine_severity DEFAULT_CONFIG_alerts [example_rate_breach 0] = Inr (Some Critical) \<and>
   (\<exists>s1. determine_severity DEFAULT_CONFIG_alerts [example_rate_breach 90] = Inr s1 \<and>
         severity_rank s1 \<le> severity_rank (Some Critical))"
proof -
  have lt: "(100 / 19 :: real) < 100" by simp
  have c: "classify (alert_severity_levels DEFAULT_CONFIG_alerts) 100 = Some Critical"
    by (simp add: classify_def DEFAULT_CONFIG_alerts_def)
  from determine_severity_monotone [OF example_percentages(1) example_percentages(2) lt, of DEFAULT_CONFIG_alerts]
  show ?thesis by (simp add: c)
qed

section \<open>Result cache: properties\<close>






section \<open>Alert history: properties\<close>

text \<open>
  Claim C8 (history bound). The claim says that after every save the history holds at
  most \<open>max_entries\<close> records. The code trims with \<open>self.alert_history[-max_entries:]\<close>,
  and for \<open>max_entries = 0\<close> that slice is \<open>[-0:]\<close>, the whole list: two recent alerts
  are both kept although the limit is 0. The theorem evaluates the code there.
\<close>

theorem save_alert_history_zero_max_entries_keeps_all:
  "max_entries (alert_history_limits zero_max_entries_config) = 0 \<and>
   length (save_alert_history example_cutoff_date zero_max_entries_config example_history) = 2 \<and>
   save_alert_history example_cutoff_date zero_max_entries_config example_history = example_history"
  by (simp add: save_alert_history_def zero_max_entries_config_def example_history_def
        example_cutoff_date_def py_slice_from_def timestamp_or_zero_def)

lemma py_slice_from_last:
  "0 < n \<Longrightarrow> py_slice_from (- n) xs = drop (length xs - nat n) xs"
  by (auto simp: py_slice_from_def nat_diff_distrib' max_def intro: arg_cong[where f="\<lambda>k. drop k xs"])

text \<open>
  What the code guarantees: for a positive \<open>max_entries\<close> the saved history is bounded by it: it is
  the last \<open>max_entries\<close> records of the list, filtered by the retention cutoff when
  \<open>retention_days > 0\<close>, so that no kept record has a timestamp before the cutoff.
\<close>

theorem save_alert_history_bounded:
  assumes "0 < max_entries (alert_history_limits cfg)"
  shows "int (length (save_alert_history cutoff_date cfg history)) \<le> max_entries (alert_history_limits cfg) \<and>
         save_alert_history cutoff_date cfg history =
           (if 0 < retention_days (alert_history_limits cfg)
            then filter (\<lambda>alert. cutoff_date \<le> timestamp_or_zero alert)
                   (drop (length history - nat (max_entries (alert_history_limits cfg))) history)
            else drop (length history - nat (max_entries (alert_history_limits cfg))) history) \<and>
         (0 < retention_days (alert_history_limits cfg) \<longrightarrow>
            (\<forall>alert \<in> set (save_alert_history cutoff_date cfg history).
               cutoff_date \<le> timestamp_or_zero alert))"
proof -
  let ?m = "max_entries (alert_history_limits cfg)"
  let ?trimmed = "drop (length history - nat ?m) history"
  have trimmed: "(if int (length history) > ?m then py_slice_from (- ?m) history else history) = ?trimmed"
    using assms by (auto simp: py_slice_from_last)
  have len: "int (length ?trimmed) \<le> ?m"
    using assms by auto
  have eq: "save_alert_history cutoff_date cfg history =
           (if 0 < retention_days (alert_history_limits cfg)
            then filter (\<lambda>alert. cutoff_date \<le> timestamp_or_zero alert) ?trimmed
            else ?trimmed)"
    unfolding save_alert_history_def Let_def trimmed by simp
  have "length (filter (\<lambda>alert. cutoff_date \<le> timestamp_or_zero alert) ?trimmed) \<le> length ?trimmed"
    by (rule length_filter_le)
  with len eq have bound: "int (length (save_alert_history cutoff_date cfg history)) \<le> ?m"
    by (simp split: if_splits)
  from eq have kept: "0 < retention_days (alert_history_limits cfg) \<longrightarrow>
            (\<forall>alert \<in> set (save_alert_history cutoff_date cfg history).
               cutoff_date \<le> timestamp_or_zero alert)"
    by simp
  from bound eq kept show ?thesis by blast
qed

theorem save_alert_history_bounded_witness:
  "int (length (save_alert_history example_cutoff_date DEFAULT_CONFIG_alerts example_history)) \<le> 1000 \<and>
   save_alert_history example_cutoff_date DEFAULT_CONFIG_alerts example_history = example_history"
proof -
  have m: "max_entries (alert_history_limits DEFAULT_CONFIG_alerts) = 1000"
    and r: "retention_days (alert_history_limits DEFAULT_CONFIG_alerts) = 90"
    by (simp_all add: DEFAULT_CONFIG_alerts_def)
  have pos: "0 < max_entries (alert_history_limits DEFAULT_CONFIG_alerts)"
    by (simp add: m)
  have kept: "filter (\<lambda>alert. example_cutoff_date \<le> timestamp_or_zero alert) example_history = example_history"
    by (simp add: example_history_def example_cutoff_date_def timestamp_or_zero_def)
  have len: "length example_history = 2"
    by (simp add: example_history_def)
  from save_alert_history_bounded [OF pos, of example_cutoff_date example_history]
  show ?thesis
    by (simp add: m r kept len)
qed

section \<open>Sampling: properties\<close>

text \<open>
  Claim C9 (systematic sampling). The claim says that \<open>_apply_sampling\<close> succeeds for the
  systematic method. The systematic branch starts with \<open>F.monotonically_increasing_id()\<close>,
  and the module binds no name \<open>F\<close> (\<open>pyspark.sql.functions\<close> is not imported), so for a
  DataFrame of two million rows under the default thresholds the call raises
  \<open>NameError\<close> before any row is selected. The theorem evaluates the code there.
\<close>

theorem apply_sampling_systematic_name_error:
  "apply_sampling spark systematic_optimizer (example_df 2000000 (Inr ''5d41'') (Inr ''7d79'')) =
     Inl NameError"
  by (simp add: apply_sampling_def systematic_optimizer_def init_optimizer_def DEFAULT_CONFIG_def
        py_truediv_def lookup_global_def module_globals_def)


text \<open>
  The same holds for every optimizer and every non-empty DataFrame above the sampling
  threshold: with sampling enabled and the systematic method, \<open>_apply_sampling\<close> raises
  \<open>NameError\<close>.
\<close>

theorem apply_sampling_systematic_raises:
  assumes "sampling_enabled (sampling (config self))"
    and "threshold_rows (sampling (config self)) < int (df_count df)"
    and "0 < df_count df"
    and "sampling_method (sampling (config self)) = ''systematic''"
  shows "apply_sampling spark self df = Inl NameError"
  using assms
  by (simp add: apply_sampling_def Let_def py_truediv_def lookup_global_def module_globals_def)

theorem apply_sampling_systematic_raises_witness:
  "apply_sampling spark systematic_optimizer (example_df 1500000 (Inr ''5d41'') (Inl SparkError)) = Inl NameError"
proof -
  have h1: "sampling_enabled (sampling (config systematic_optimizer))"
    and h4: "sampling_method (sampling (config systematic_optimizer)) = ''systematic''"
    and t: "threshold_rows (sampling (config systematic_optimizer)) = 1000000"
    by (simp_all add: systematic_optimizer_def init_optimizer_def DEFAULT_CONFIG_def)
  have h2: "threshold_rows (sampling (config systematic_optimizer))
      < int (df_count (example_df 1500000 (Inr ''5d41'') (Inl SparkError)))"
    by (simp add: t)
  have h3: "0 < df_count (example_df 1500000 (Inr ''5d41'') (Inl SparkError))"
    by simp
  show ?thesis
    by (rule apply_sampling_systematic_raises [OF h1 h2 h3 h4])
qed

section \<open>Change detection: further properties\<close>

text \<open>
  \<open>_should_validate\<close> never raises: the only division is guarded by
  \<open>previous_row_count > 0\<close>.
\<close>

theorem should_validate_never_raises: "\<exists>decision. should_validate self df layer dataset = Inr decision"
proof -
  obtain b where "row_count_check (selective_validation (config self))
      (row_counts self (metadata_key layer dataset)) (df_count df) = Inr b"
    using row_count_check_never_raises by blast
  then show ?thesis
    by (cases b) (auto simp: should_validate_def Let_def)
qed

text \<open>
  What the code does on a cold start in general: with selective validation enabled and
  no row count, schema hash or data hash stored for the key, the answer is validate
  exactly when \<open>skip_unchanged_data\<close> is off.
\<close>

theorem should_validate_cold_start:
  assumes "sv_enabled (selective_validation (config self))"
    and "row_counts self (metadata_key layer dataset) = None"
    and "schema_hashes self (metadata_key layer dataset) = None"
    and "data_hashes self (metadata_key layer dataset) = None"
  shows "should_validate self df layer dataset =
           Inr (\<not> skip_unchanged_data (selective_validation (config self)))"
  using assms
  by (simp add: should_validate_def row_count_check_def schema_check_def data_hash_check_def Let_def)

theorem should_validate_cold_start_witness:
  "should_validate (init_optimizer (DEFAULT_CONFIG \<lparr> caching := caching DEFAULT_CONFIG \<rparr>) :: string optimizer)
     (example_df 7 (Inr ''5d41'') (Inr ''7d79'')) ''gold'' ''fact_sales'' = Inr False"
  using should_validate_cold_start
    [where self = "init_optimizer (DEFAULT_CONFIG \<lparr> caching := caching DEFAULT_CONFIG \<rparr>) :: string optimizer"
       and layer = "''gold''" and dataset = "''fact_sales''"
       and df = "example_df 7 (Inr ''5d41'') (Inr ''7d79'')"]
  by (simp add: init_optimizer_def)


end
